theory Spec2Isabelle
  imports Complex_Main
begin

section \<open>Numbers\<close>

text \<open>
  The source computes with NumPy double-precision values. The model keeps the special
  values of that arithmetic (not-a-number and the two infinities) and treats every finite
  value as an exact real: rounding, overflow and the sign of zero are outside the model.
  Division by zero, the square root of a negative number and the products and sums that
  IEEE arithmetic leaves undefined are written out, since HOL's own \<open>x / 0 = 0\<close> and
  \<open>sqrt (- x) = - sqrt x\<close> are not what the program computes.
\<close>

datatype fl = Fin real | PInf | NInf | NaN

instantiation fl :: "{zero, one, plus, minus, uminus, times, inverse, abs, ord}"
begin

definition zero_fl :: fl where "zero_fl = Fin 0"

definition one_fl :: fl where "one_fl = Fin 1"

fun plus_fl :: "fl \<Rightarrow> fl \<Rightarrow> fl" where
  "plus_fl NaN _ = NaN"
| "plus_fl _ NaN = NaN"
| "plus_fl (Fin a) (Fin b) = Fin (a + b)"
| "plus_fl PInf NInf = NaN"
| "plus_fl NInf PInf = NaN"
| "plus_fl PInf _ = PInf"
| "plus_fl NInf _ = NInf"
| "plus_fl _ PInf = PInf"
| "plus_fl _ NInf = NInf"

fun uminus_fl :: "fl \<Rightarrow> fl" where
  "uminus_fl (Fin a) = Fin (- a)"
| "uminus_fl PInf = NInf"
| "uminus_fl NInf = PInf"
| "uminus_fl NaN = NaN"

definition minus_fl :: "fl \<Rightarrow> fl \<Rightarrow> fl" where
  "minus_fl x y = x + (- y)"

text \<open>An infinity times a finite value: the sign of the finite factor decides, and zero
  gives not-a-number.\<close>

definition inf_signed :: "bool \<Rightarrow> real \<Rightarrow> fl" where
  "inf_signed pos a =
     (if a = 0 then NaN else if (0 < a) = pos then PInf else NInf)"

fun times_fl :: "fl \<Rightarrow> fl \<Rightarrow> fl" where
  "times_fl NaN _ = NaN"
| "times_fl _ NaN = NaN"
| "times_fl (Fin a) (Fin b) = Fin (a * b)"
| "times_fl PInf (Fin b) = inf_signed True b"
| "times_fl NInf (Fin b) = inf_signed False b"
| "times_fl (Fin a) PInf = inf_signed True a"
| "times_fl (Fin a) NInf = inf_signed False a"
| "times_fl PInf PInf = PInf"
| "times_fl NInf NInf = PInf"
| "times_fl PInf NInf = NInf"
| "times_fl NInf PInf = NInf"

fun divide_fl :: "fl \<Rightarrow> fl \<Rightarrow> fl" where
  "divide_fl NaN _ = NaN"
| "divide_fl _ NaN = NaN"
| "divide_fl (Fin a) (Fin b) = (if b = 0 then inf_signed True a else Fin (a / b))"
| "divide_fl (Fin a) _ = Fin 0"
| "divide_fl PInf (Fin b) = (if 0 \<le> b then PInf else NInf)"
| "divide_fl NInf (Fin b) = (if 0 \<le> b then NInf else PInf)"
| "divide_fl _ _ = NaN"

definition inverse_fl :: "fl \<Rightarrow> fl" where
  "inverse_fl x = divide (Fin 1) x"

fun abs_fl :: "fl \<Rightarrow> fl" where
  "abs_fl (Fin a) = Fin \<bar>a\<bar>"
| "abs_fl PInf = PInf"
| "abs_fl NInf = PInf"
| "abs_fl NaN = NaN"

text \<open>Comparisons with not-a-number are false.\<close>

fun less_fl :: "fl \<Rightarrow> fl \<Rightarrow> bool" where
  "less_fl NaN _ = False"
| "less_fl _ NaN = False"
| "less_fl (Fin a) (Fin b) = (a < b)"
| "less_fl NInf NInf = False"
| "less_fl NInf _ = True"
| "less_fl _ NInf = False"
| "less_fl PInf _ = False"
| "less_fl _ PInf = True"

fun less_eq_fl :: "fl \<Rightarrow> fl \<Rightarrow> bool" where
  "less_eq_fl NaN _ = False"
| "less_eq_fl _ NaN = False"
| "less_eq_fl (Fin a) (Fin b) = (a \<le> b)"
| "less_eq_fl NInf _ = True"
| "less_eq_fl _ PInf = True"
| "less_eq_fl _ _ = False"

instance ..

end

instance fl :: numeral
proof
  fix a b c :: fl
  show "a + b + c = a + (b + c)"
    by (cases a; cases b; cases c) simp_all
qed

instance fl :: power ..

text \<open>\<open>np.sqrt\<close>, \<open>np.cos\<close>, \<open>np.sin\<close>, \<open>np.arctan\<close>, \<open>np.sign\<close> and
  \<open>np.zeros_like\<close> on one value.\<close>

fun np_sqrt :: "fl \<Rightarrow> fl" where
  "np_sqrt (Fin a) = (if a < 0 then NaN else Fin (sqrt a))"
| "np_sqrt PInf = PInf"
| "np_sqrt NInf = NaN"
| "np_sqrt NaN = NaN"

fun np_cos :: "fl \<Rightarrow> fl" where
  "np_cos (Fin a) = Fin (cos a)"
| "np_cos _ = NaN"

fun np_sin :: "fl \<Rightarrow> fl" where
  "np_sin (Fin a) = Fin (sin a)"
| "np_sin _ = NaN"

fun np_arctan :: "fl \<Rightarrow> fl" where
  "np_arctan (Fin a) = Fin (arctan a)"
| "np_arctan PInf = Fin (pi / 2)"
| "np_arctan NInf = Fin (- (pi / 2))"
| "np_arctan NaN = NaN"

fun np_sign :: "fl \<Rightarrow> fl" where
  "np_sign (Fin a) = Fin (sgn a)"
| "np_sign PInf = Fin 1"
| "np_sign NInf = Fin (- 1)"
| "np_sign NaN = NaN"

definition zeros_like :: "fl \<Rightarrow> fl" where
  "zeros_like x = Fin 0"

definition np_pi :: fl where
  "np_pi = Fin pi"


section \<open>Solution record\<close>

text \<open>
  The dataclass \<open>MomentumSolution\<close>. The solved fields are scalars or per-annulus arrays
  in the source, hence the type parameter; \<open>dp_NL\<close>, \<open>niter\<close>, \<open>converged\<close> and
  \<open>beta\<close> have the defaults \<open>0.0\<close>, \<open>1\<close>, \<open>True\<close> and \<open>0.0\<close>.
\<close>

record 'v MomentumSolution =
  Ctprime :: 'v
  yaw :: fl
  an :: 'v
  u4 :: 'v
  v4 :: 'v
  dp :: 'v
  dp_NL :: fl
  niter :: int
  converged :: bool
  beta :: fl

definition MomentumSolution_init ::
  "'v \<Rightarrow> fl \<Rightarrow> 'v \<Rightarrow> 'v \<Rightarrow> 'v \<Rightarrow> 'v \<Rightarrow> 'v MomentumSolution" where
  "MomentumSolution_init Ctprime' yaw' an' u4' v4' dp' =
     \<lparr>Ctprime = Ctprime', yaw = yaw', an = an', u4 = u4', v4 = v4', dp = dp',
      dp_NL = 0.0, niter = 1, converged = True, beta = 0.0\<rparr>"

definition solution :: "'v MomentumSolution \<Rightarrow> 'v \<times> 'v \<times> 'v \<times> 'v" where
  "solution s = (an s, u4 s, v4 s, dp s)"

definition Ct :: "fl MomentumSolution \<Rightarrow> fl" where
  "Ct s = Ctprime s * (1 - an s) ^ 2 * np_cos (yaw s) ^ 2"

definition Cp :: "fl MomentumSolution \<Rightarrow> fl" where
  "Cp s = Ctprime s * ((1 - an s) * np_cos (yaw s)) ^ 3"

definition x0 :: "fl MomentumSolution \<Rightarrow> fl" where
  "x0 s =
     np_cos (yaw s)
     * np_sqrt (((1 - an s) * np_cos (yaw s)) / (1 + u4 s))
     / (2 / (1 + u4 s) * (beta s * (1 - u4 s) / 2))"

section \<open>The iteration engine as the models see it\<close>

text \<open>
  \<open>fixedpointiteration\<close> lives in the module \<open>Utilities\<close>. A model hands it a residual
  function (with \<open>args\<close> already applied), an initial guess and some of the keyword
  arguments \<open>eps\<close>, \<open>maxiter\<close>, \<open>relax\<close>; an argument that a model does not pass is
  \<open>None\<close> here and the engine's own default applies. The models read the attributes
  \<open>converged\<close>, \<open>niter\<close> and \<open>x\<close> of what comes back. The state is a tuple of the
  model's unknowns, so its length is part of the type.
\<close>

record 'x fpi_call =
  fpi_f :: "'x \<Rightarrow> 'x"
  fpi_x0 :: 'x
  fpi_eps :: "fl option"
  fpi_maxiter :: "int option"
  fpi_relax :: "fl option"

record 'x FixedPointIterationResult =
  sol_converged :: bool
  sol_niter :: int
  sol_x :: 'x

type_synonym 'x engine = "'x fpi_call \<Rightarrow> 'x FixedPointIterationResult"

text \<open>Each \<open>solve\<close> below takes the engine as its first argument \<open>fpi\<close>.\<close>

section \<open>Closed-form limiting model\<close>

definition LimitedHeck_solve :: "fl \<Rightarrow> fl \<Rightarrow> fl MomentumSolution" where
  "LimitedHeck_solve Ctprime' yaw' =
     (let a = Ctprime' * np_cos yaw' ^ 2 / (4 + Ctprime' * np_cos yaw' ^ 2);
          u4' = (4 - Ctprime' * np_cos yaw' ^ 2) / (4 + Ctprime' * np_cos yaw' ^ 2);
          v4' = - (4 * Ctprime' * np_sin yaw' * np_cos yaw' ^ 2)
                / (4 + Ctprime' * np_cos yaw' ^ 2) ^ 2;
          dp' = 0.0 * a
      in MomentumSolution_init Ctprime' yaw' a u4' v4' dp')"

section \<open>Iterative coupled-velocity model\<close>

definition Heck_initial_condition :: "fl \<Rightarrow> fl \<Rightarrow> fl \<times> fl \<times> fl" where
  "Heck_initial_condition Ctprime' yaw' =
     (let sol = LimitedHeck_solve Ctprime' yaw' in (an sol, u4 sol, v4 sol))"

fun Heck_residual :: "fl \<times> fl \<times> fl \<Rightarrow> fl \<Rightarrow> fl \<Rightarrow> fl \<times> fl \<times> fl" where
  "Heck_residual (a, u4', v4') Ctprime' yaw' =
     (let e_a = 1 - np_sqrt (1 - u4' ^ 2 - v4' ^ 2) / (np_sqrt Ctprime' * np_cos yaw') - a;
          e_u4 = (1 - 0.5 * Ctprime' * (1 - a) * np_cos yaw' ^ 2) - u4';
          e_v4 = (- 0.25) * Ctprime' * (1 - a) ^ 2 * np_sin yaw' * np_cos yaw' ^ 2 - v4'
      in (e_a, e_u4, e_v4))"

definition Heck_default_eps :: fl where
  "Heck_default_eps = 0.00001"

text \<open>The relaxation factor chosen in \<open>Heck.solve\<close>; \<open>np.max\<close> of a scalar is the scalar.\<close>

definition Heck_relax :: "fl \<Rightarrow> fl" where
  "Heck_relax Ctprime' = (if Ctprime' > 15 then 0.9 else 0.1)"

text \<open>What \<open>Heck.solve\<close> passes to the engine: \<open>eps\<close> and \<open>relax\<close>, no \<open>maxiter\<close>.
  Further keyword arguments of \<open>solve\<close> end in \<open>**kwargs\<close> and are not used.\<close>

definition Heck_call ::
  "fl \<Rightarrow> fl \<Rightarrow> (fl \<times> fl \<times> fl) option \<Rightarrow> fl \<Rightarrow> (fl \<times> fl \<times> fl) fpi_call" where
  "Heck_call Ctprime' yaw' x0' eps' =
     (let x0'' = (case x0' of None \<Rightarrow> Heck_initial_condition Ctprime' yaw' | Some g \<Rightarrow> g);
          relax = Heck_relax Ctprime'
      in \<lparr>fpi_f = (\<lambda>x. Heck_residual x Ctprime' yaw'), fpi_x0 = x0'',
          fpi_eps = Some eps', fpi_maxiter = None, fpi_relax = Some relax\<rparr>)"

fun nan_like3 :: "fl \<times> fl \<times> fl \<Rightarrow> fl \<times> fl \<times> fl" where
  "nan_like3 (a, b, c) = (NaN * zeros_like a, NaN * zeros_like b, NaN * zeros_like c)"

definition Heck_solve ::
  "(fl \<times> fl \<times> fl) engine \<Rightarrow> fl \<Rightarrow> fl \<Rightarrow> (fl \<times> fl \<times> fl) option \<Rightarrow> fl
     \<Rightarrow> fl MomentumSolution" where
  "Heck_solve fpi Ctprime' yaw' x0' eps' =
     (let call = Heck_call Ctprime' yaw' x0' eps';
          sol = fpi call;
          (a, u4', v4') = (if sol_converged sol then sol_x sol else nan_like3 (fpi_x0 call));
          dp' = zeros_like a
      in (MomentumSolution_init Ctprime' yaw' a u4' v4' dp')
           \<lparr>niter := sol_niter sol, converged := sol_converged sol\<rparr>)"

section \<open>Unified model\<close>

text \<open>
  A \<open>UnifiedMomentum\<close> object holds \<open>beta\<close> and a \<open>NonlinearADPressureField\<close>, of which
  the model calls the method \<open>get_pressure\<close> only. That class is another module's; it is
  a parameter here, a function of the two arguments.
\<close>

record UnifiedMomentum =
  self_beta :: fl
  get_pressure :: "fl \<Rightarrow> fl \<Rightarrow> fl"

definition UnifiedMomentum_default_beta :: fl where
  "UnifiedMomentum_default_beta = 0.1403"

definition UnifiedMomentum_initial_condition :: "fl \<Rightarrow> fl \<Rightarrow> fl \<times> fl \<times> fl \<times> fl" where
  "UnifiedMomentum_initial_condition Ctprime' yaw' =
     (let an' = (Ctprime' * np_cos yaw' ^ 2) / (4 + Ctprime' * np_cos yaw' ^ 2);
          u4' = (4 - Ctprime' * np_cos yaw' ^ 2) / (4 + Ctprime' * np_cos yaw' ^ 2);
          v4' = (4 * Ctprime' * np_sin yaw' * np_cos yaw' ^ 2)
                / ((4 + Ctprime' * np_cos yaw' ^ 2) ^ 2);
          dp' = zeros_like Ctprime'
      in (an', u4', v4', dp'))"

definition UnifiedMomentum_nonlinear_pressure ::
  "UnifiedMomentum \<Rightarrow> fl \<Rightarrow> fl \<Rightarrow> fl \<Rightarrow> fl \<Rightarrow> fl" where
  "UnifiedMomentum_nonlinear_pressure self Ctprime' yaw' an' u4' =
     (let x0' = np_cos yaw'
                * np_sqrt (((1 - an') * np_cos yaw') / (1 + u4'))
                / (2 / (1 + u4') * (self_beta self * (1 - u4') / 2));
          CT = Ctprime' * (1 - an') ^ 2 * np_cos yaw' ^ 2;
          p_g = get_pressure self (CT / 2) x0'
      in p_g)"

fun UnifiedMomentum_residual ::
  "UnifiedMomentum \<Rightarrow> fl \<times> fl \<times> fl \<times> fl \<Rightarrow> fl \<Rightarrow> fl \<Rightarrow> fl \<times> fl \<times> fl \<times> fl" where
  "UnifiedMomentum_residual self (an', u4', v4', dp') Ctprime' yaw' =
     (let p_g = UnifiedMomentum_nonlinear_pressure self Ctprime' yaw' an' u4';
          x0' = np_cos yaw'
                * np_sqrt (((1 - an') * np_cos yaw') / (1 + u4'))
                / (2 / (1 + u4') * (self_beta self * (1 - u4') / 2));
          e_an = 1
                 - np_sqrt ((- dp') / (0.5 * Ctprime' * np_cos yaw' ^ 2)
                            + (1 - u4' ^ 2 - v4' ^ 2) / (Ctprime' * np_cos yaw' ^ 2))
                 - an';
          e_u4 = ((- (1 / 4)) * Ctprime' * (1 - an') * np_cos yaw' ^ 2
                  + (1 / 2)
                  + (1 / 2)
                    * np_sqrt ((1 / 2 * Ctprime' * (1 - an') * np_cos yaw' ^ 2 - 1) ^ 2
                               - (4 * dp')))
                 - u4';
          e_v4 = (- (1 / 4)) * Ctprime' * (1 - an') ^ 2 * np_sin yaw' * np_cos yaw' ^ 2 - v4';
          e_dp = ((- (1 / (2 * np_pi)))
                    * Ctprime'
                    * (1 - an') ^ 2
                    * np_cos yaw' ^ 2
                    * np_arctan (1 / x0'))
                 + p_g
                 - dp'
      in (e_an, e_u4, e_v4, e_dp))"

definition UnifiedMomentum_default_maxiter :: int where
  "UnifiedMomentum_default_maxiter = 400"

definition UnifiedMomentum_default_relax :: fl where
  "UnifiedMomentum_default_relax = 0.25"

text \<open>\<open>UnifiedMomentum.solve\<close> has the parameter \<open>x0\<close> and assigns the computed initial
  condition to it in its first statement; it passes \<open>maxiter\<close> and \<open>relax\<close>, no \<open>eps\<close>.\<close>

definition UnifiedMomentum_call ::
  "UnifiedMomentum \<Rightarrow> fl \<Rightarrow> fl \<Rightarrow> (fl \<times> fl \<times> fl \<times> fl) option \<Rightarrow> int \<Rightarrow> fl
     \<Rightarrow> (fl \<times> fl \<times> fl \<times> fl) fpi_call" where
  "UnifiedMomentum_call self Ctprime' yaw' x0' maxiter relax =
     (let x0'' = UnifiedMomentum_initial_condition Ctprime' yaw'
      in \<lparr>fpi_f = (\<lambda>x. UnifiedMomentum_residual self x Ctprime' yaw'), fpi_x0 = x0'',
          fpi_eps = None, fpi_maxiter = Some maxiter, fpi_relax = Some relax\<rparr>)"

fun nan_like4 :: "fl \<times> fl \<times> fl \<times> fl \<Rightarrow> fl \<times> fl \<times> fl \<times> fl" where
  "nan_like4 (a, b, c, d) =
     (NaN * zeros_like a, NaN * zeros_like b, NaN * zeros_like c, NaN * zeros_like d)"

definition UnifiedMomentum_solve ::
  "(fl \<times> fl \<times> fl \<times> fl) engine \<Rightarrow> UnifiedMomentum \<Rightarrow> fl \<Rightarrow> fl
     \<Rightarrow> (fl \<times> fl \<times> fl \<times> fl) option \<Rightarrow> int \<Rightarrow> fl \<Rightarrow> fl MomentumSolution" where
  "UnifiedMomentum_solve fpi self Ctprime' yaw' x0' maxiter relax =
     (let call = UnifiedMomentum_call self Ctprime' yaw' x0' maxiter relax;
          sol = fpi call;
          (a, u4', v4', dp') =
             (if sol_converged sol then sol_x sol else nan_like4 (fpi_x0 call));
          p_g = UnifiedMomentum_nonlinear_pressure self Ctprime' yaw' a u4'
      in \<lparr>Ctprime = Ctprime', yaw = yaw', an = a, u4 = u4', v4 = v4', dp = dp',
          dp_NL = p_g, niter = sol_niter sol, converged = sol_converged sol,
          beta = self_beta self\<rparr>)"

section \<open>Thrust-based unified model\<close>

definition ThrustBasedUnified_initial_condition ::
  "fl \<Rightarrow> fl \<Rightarrow> fl \<times> fl \<times> fl \<times> fl \<times> fl" where
  "ThrustBasedUnified_initial_condition Ct' yaw' =
     (let an' = 0.5 * Ct';
          u4' = 1 - Ct';
          v4' = zeros_like Ct';
          dp' = zeros_like Ct';
          Ctprime' = np_sign Ct'
      in (an', u4', v4', dp', Ctprime'))"

fun ThrustBasedUnified_residual ::
  "UnifiedMomentum \<Rightarrow> fl \<times> fl \<times> fl \<times> fl \<times> fl \<Rightarrow> fl \<Rightarrow> fl
     \<Rightarrow> fl \<times> fl \<times> fl \<times> fl \<times> fl" where
  "ThrustBasedUnified_residual self (an', u4', v4', dp', Ctprime') Ct' yaw' =
     (let (e_an, e_u4, e_v4, e_dp) =
             UnifiedMomentum_residual self (an', u4', v4', dp') Ctprime' yaw';
          e_Ctprime = Ct' / ((1 - an') ^ 2 * np_cos yaw' ^ 2) - Ctprime'
      in (e_an, e_u4, e_v4, e_dp, e_Ctprime))"

definition ThrustBasedUnified_default_relax :: fl where
  "ThrustBasedUnified_default_relax = 0.25"

definition ThrustBasedUnified_default_maxiter :: int where
  "ThrustBasedUnified_default_maxiter = 5000"

text \<open>\<open>ThrustBasedUnified.solve\<close> overwrites \<open>x0\<close> in the same way. Its \<open>**kwargs\<close> are
  handed on to the residual function, which takes none: the model is the call without
  further keyword arguments.\<close>

definition ThrustBasedUnified_call ::
  "UnifiedMomentum \<Rightarrow> fl \<Rightarrow> fl \<Rightarrow> (fl \<times> fl \<times> fl \<times> fl \<times> fl) option \<Rightarrow> fl \<Rightarrow> int
     \<Rightarrow> (fl \<times> fl \<times> fl \<times> fl \<times> fl) fpi_call" where
  "ThrustBasedUnified_call self Ct' yaw' x0' relax maxiter =
     (let x0'' = ThrustBasedUnified_initial_condition Ct' yaw'
      in \<lparr>fpi_f = (\<lambda>x. ThrustBasedUnified_residual self x Ct' yaw'), fpi_x0 = x0'',
          fpi_eps = None, fpi_maxiter = Some maxiter, fpi_relax = Some relax\<rparr>)"

definition ThrustBasedUnified_solve ::
  "(fl \<times> fl \<times> fl \<times> fl \<times> fl) engine \<Rightarrow> UnifiedMomentum \<Rightarrow> fl \<Rightarrow> fl
     \<Rightarrow> (fl \<times> fl \<times> fl \<times> fl \<times> fl) option \<Rightarrow> fl \<Rightarrow> int \<Rightarrow> fl MomentumSolution" where
  "ThrustBasedUnified_solve fpi self Ct' yaw' x0' relax maxiter =
     (let call = ThrustBasedUnified_call self Ct' yaw' x0' relax maxiter;
          sol = fpi call;
          (a, u4', v4', dp', Ctprime') = sol_x sol
      in (MomentumSolution_init Ctprime' yaw' a u4' v4' dp')
           \<lparr>niter := sol_niter sol, converged := sol_converged sol,
            beta := self_beta self\<rparr>)"

section \<open>The fixed-point iteration engine\<close>

text \<open>
  Modelled from the spec: the function \<open>fixedpointiteration\<close> of the module
  \<open>Utilities\<close>, whose source is not part of the files at hand. Following the spec's
  section 4.1: evaluate the residual at the current state, update
  \<open>x_next = x + relax * R(x)\<close>, stop with \<open>converged = True\<close> when the maximum
  elementwise absolute residual is below \<open>eps\<close>, and stop with \<open>converged = False\<close>
  when \<open>maxiter\<close> iterations have been made; \<open>niter\<close> counts the iterations made. The
  defaults of \<open>eps\<close>, \<open>maxiter\<close> and \<open>relax\<close> are not given there and are parameters.
  The engine works on any state type that comes with the two elementwise operations it
  needs.
\<close>

record 'x vec_ops =
  axpy :: "'x \<Rightarrow> fl \<Rightarrow> 'x \<Rightarrow> 'x"
  max_abs :: "'x \<Rightarrow> fl"

record fpi_defaults =
  default_eps :: fl
  default_maxiter :: int
  default_relax :: fl

text \<open>\<open>np.max\<close> of two values: not-a-number wins.\<close>

fun np_max2 :: "fl \<Rightarrow> fl \<Rightarrow> fl" where
  "np_max2 NaN _ = NaN"
| "np_max2 _ NaN = NaN"
| "np_max2 a b = (if a < b then b else a)"

fun fpi_loop ::
  "'x vec_ops \<Rightarrow> ('x \<Rightarrow> 'x) \<Rightarrow> fl \<Rightarrow> fl \<Rightarrow> nat \<Rightarrow> int \<Rightarrow> 'x
     \<Rightarrow> 'x FixedPointIterationResult" where
  "fpi_loop ops f' eps' relax 0 c x' =
     \<lparr>sol_converged = False, sol_niter = c, sol_x = x'\<rparr>"
| "fpi_loop ops f' eps' relax (Suc n) c x' =
     (let residuals = f' x';
          x_next = axpy ops x' relax residuals
      in if max_abs ops residuals < eps'
         then \<lparr>sol_converged = True, sol_niter = c + 1, sol_x = x_next\<rparr>
         else fpi_loop ops f' eps' relax n (c + 1) x_next)"

definition fixedpointiteration :: "'x vec_ops \<Rightarrow> fpi_defaults \<Rightarrow> 'x engine" where
  "fixedpointiteration ops dflt call =
     (let eps' = (case fpi_eps call of None \<Rightarrow> default_eps dflt | Some e \<Rightarrow> e);
          maxiter = (case fpi_maxiter call of None \<Rightarrow> default_maxiter dflt | Some m \<Rightarrow> m);
          relax = (case fpi_relax call of None \<Rightarrow> default_relax dflt | Some r \<Rightarrow> r)
      in fpi_loop ops (fpi_f call) eps' relax (nat maxiter) 0 (fpi_x0 call))"

fun axpy3 :: "fl \<times> fl \<times> fl \<Rightarrow> fl \<Rightarrow> fl \<times> fl \<times> fl \<Rightarrow> fl \<times> fl \<times> fl" where
  "axpy3 (a, b, c) relax (ra, rb, rc) = (a + relax * ra, b + relax * rb, c + relax * rc)"

fun max_abs3 :: "fl \<times> fl \<times> fl \<Rightarrow> fl" where
  "max_abs3 (ra, rb, rc) = np_max2 (np_max2 \<bar>ra\<bar> \<bar>rb\<bar>) \<bar>rc\<bar>"

definition vec3 :: "(fl \<times> fl \<times> fl) vec_ops" where
  "vec3 = \<lparr>axpy = axpy3, max_abs = max_abs3\<rparr>"

fun axpy4 ::
  "fl \<times> fl \<times> fl \<times> fl \<Rightarrow> fl \<Rightarrow> fl \<times> fl \<times> fl \<times> fl \<Rightarrow> fl \<times> fl \<times> fl \<times> fl" where
  "axpy4 (a, b, c, d) relax (ra, rb, rc, rd) =
     (a + relax * ra, b + relax * rb, c + relax * rc, d + relax * rd)"

fun max_abs4 :: "fl \<times> fl \<times> fl \<times> fl \<Rightarrow> fl" where
  "max_abs4 (ra, rb, rc, rd) = np_max2 (np_max2 (np_max2 \<bar>ra\<bar> \<bar>rb\<bar>) \<bar>rc\<bar>) \<bar>rd\<bar>"

definition vec4 :: "(fl \<times> fl \<times> fl \<times> fl) vec_ops" where
  "vec4 = \<lparr>axpy = axpy4, max_abs = max_abs4\<rparr>"

fun axpy5 ::
  "fl \<times> fl \<times> fl \<times> fl \<times> fl \<Rightarrow> fl \<Rightarrow> fl \<times> fl \<times> fl \<times> fl \<times> fl
     \<Rightarrow> fl \<times> fl \<times> fl \<times> fl \<times> fl" where
  "axpy5 (a, b, c, d, e) relax (ra, rb, rc, rd, re) =
     (a + relax * ra, b + relax * rb, c + relax * rc, d + relax * rd, e + relax * re)"

fun max_abs5 :: "fl \<times> fl \<times> fl \<times> fl \<times> fl \<Rightarrow> fl" where
  "max_abs5 (ra, rb, rc, rd, re) =
     np_max2 (np_max2 (np_max2 (np_max2 \<bar>ra\<bar> \<bar>rb\<bar>) \<bar>rc\<bar>) \<bar>rd\<bar>) \<bar>re\<bar>"

definition vec5 :: "(fl \<times> fl \<times> fl \<times> fl \<times> fl) vec_ops" where
  "vec5 = \<lparr>axpy = axpy5, max_abs = max_abs5\<rparr>"

section \<open>Array-valued loading coefficients\<close>

text \<open>
  \<open>LimitedHeck\<close> and \<open>Heck\<close> also take a NumPy array of loading coefficients, one
  entry per annulus, together with a scalar yaw angle. Every arithmetic operation of the
  source then acts entry by entry, the scalar being broadcast; \<open>np.max\<close> reduces the
  array and raises \<open>ValueError\<close> on an empty one.
\<close>

datatype error = ValueError

fun np_max :: "fl list \<Rightarrow> error + fl" where
  "np_max [] = Inl ValueError"
| "np_max (c # cs) = Inr (foldl np_max2 c cs)"

definition LimitedHeck_solve_array :: "fl list \<Rightarrow> fl \<Rightarrow> fl list MomentumSolution" where
  "LimitedHeck_solve_array Ctprime' yaw' =
     (let a = map (\<lambda>C. C * np_cos yaw' ^ 2 / (4 + C * np_cos yaw' ^ 2)) Ctprime';
          u4' = map (\<lambda>C. (4 - C * np_cos yaw' ^ 2) / (4 + C * np_cos yaw' ^ 2)) Ctprime';
          v4' = map (\<lambda>C. - (4 * C * np_sin yaw' * np_cos yaw' ^ 2)
                          / (4 + C * np_cos yaw' ^ 2) ^ 2) Ctprime';
          dp' = map (\<lambda>a'. 0.0 * a') a
      in MomentumSolution_init Ctprime' yaw' a u4' v4' dp')"

definition Heck_initial_condition_array ::
  "fl list \<Rightarrow> fl \<Rightarrow> fl list \<times> fl list \<times> fl list" where
  "Heck_initial_condition_array Ctprime' yaw' =
     (let sol = LimitedHeck_solve_array Ctprime' yaw' in (an sol, u4 sol, v4 sol))"

fun Heck_residual_array ::
  "fl list \<times> fl list \<times> fl list \<Rightarrow> fl list \<Rightarrow> fl \<Rightarrow> fl list \<times> fl list \<times> fl list" where
  "Heck_residual_array (a, u4', v4') Ctprime' yaw' =
     (let rows = map (\<lambda>(a', u', v', C). Heck_residual (a', u', v') C yaw')
                     (zip a (zip u4' (zip v4' Ctprime')))
      in (map fst rows, map (fst \<circ> snd) rows, map (snd \<circ> snd) rows))"

definition Heck_call_array ::
  "fl list \<Rightarrow> fl \<Rightarrow> (fl list \<times> fl list \<times> fl list) option \<Rightarrow> fl
     \<Rightarrow> error + (fl list \<times> fl list \<times> fl list) fpi_call" where
  "Heck_call_array Ctprime' yaw' x0' eps' =
     (let x0'' = (case x0' of None \<Rightarrow> Heck_initial_condition_array Ctprime' yaw'
                            | Some g \<Rightarrow> g)
      in case np_max Ctprime' of
           Inl e \<Rightarrow> Inl e
         | Inr m \<Rightarrow>
             (let relax = (if m > 15 then 0.9 else 0.1)
              in Inr \<lparr>fpi_f = (\<lambda>x. Heck_residual_array x Ctprime' yaw'), fpi_x0 = x0'',
                      fpi_eps = Some eps', fpi_maxiter = None, fpi_relax = Some relax\<rparr>))"

fun nan_like3_array ::
  "fl list \<times> fl list \<times> fl list \<Rightarrow> fl list \<times> fl list \<times> fl list" where
  "nan_like3_array (a, b, c) =
     (map (\<lambda>x. NaN * zeros_like x) a, map (\<lambda>x. NaN * zeros_like x) b,
      map (\<lambda>x. NaN * zeros_like x) c)"

definition Heck_solve_array ::
  "(fl list \<times> fl list \<times> fl list) engine \<Rightarrow> fl list \<Rightarrow> fl
     \<Rightarrow> (fl list \<times> fl list \<times> fl list) option \<Rightarrow> fl \<Rightarrow> error + fl list MomentumSolution" where
  "Heck_solve_array fpi Ctprime' yaw' x0' eps' =
     (case Heck_call_array Ctprime' yaw' x0' eps' of
        Inl e \<Rightarrow> Inl e
      | Inr call \<Rightarrow>
          (let sol = fpi call;
               (a, u4', v4') =
                  (if sol_converged sol then sol_x sol else nan_like3_array (fpi_x0 call));
               dp' = map zeros_like a
           in Inr ((MomentumSolution_init Ctprime' yaw' a u4' v4' dp')
                     \<lparr>niter := sol_niter sol, converged := sol_converged sol\<rparr>)))"

text \<open>The engine's two operations on a state of three arrays. The maximum starts from
  zero, which changes nothing for absolute values.\<close>

fun axpy3_array ::
  "fl list \<times> fl list \<times> fl list \<Rightarrow> fl \<Rightarrow> fl list \<times> fl list \<times> fl list
     \<Rightarrow> fl list \<times> fl list \<times> fl list" where
  "axpy3_array (a, b, c) relax (ra, rb, rc) =
     (map2 (\<lambda>x r. x + relax * r) a ra, map2 (\<lambda>x r. x + relax * r) b rb,
      map2 (\<lambda>x r. x + relax * r) c rc)"

fun max_abs3_array :: "fl list \<times> fl list \<times> fl list \<Rightarrow> fl" where
  "max_abs3_array (ra, rb, rc) = foldl np_max2 (Fin 0) (map abs (ra @ rb @ rc))"

definition vec3_array :: "(fl list \<times> fl list \<times> fl list) vec_ops" where
  "vec3_array = \<lparr>axpy = axpy3_array, max_abs = max_abs3_array\<rparr>"

text \<open>One choice of the engine's defaults, for concrete runs. Statements that hold for
  every choice are made for an arbitrary \<open>dflt\<close>.\<close>

definition some_defaults :: fpi_defaults where
  "some_defaults = \<lparr>default_eps = 0.00001, default_maxiter = 100, default_relax = 1\<rparr>"

text \<open>An engine run known by its result only, and a pressure field that answers the
  same value everywhere.\<close>

definition engine_returning :: "'x FixedPointIterationResult \<Rightarrow> 'x engine" where
  "engine_returning r call = r"

definition constant_pressure :: "fl \<Rightarrow> fl \<Rightarrow> fl \<Rightarrow> fl" where
  "constant_pressure p CT x0' = p"

section \<open>The formulas of the specification\<close>




definition spec_Ct :: "fl \<Rightarrow> fl \<Rightarrow> fl \<Rightarrow> fl" where
  "spec_Ct Ctprime' an' yaw' =
     Ctprime' * ((1 - an') * (1 - an')) * (np_cos yaw' * np_cos yaw')"

definition spec_Cp :: "fl \<Rightarrow> fl \<Rightarrow> fl \<Rightarrow> fl" where
  "spec_Cp Ctprime' an' yaw' =
     Ctprime'
     * (((1 - an') * np_cos yaw')
        * (((1 - an') * np_cos yaw') * ((1 - an') * np_cos yaw')))"

definition spec_x0 :: "fl \<Rightarrow> fl \<Rightarrow> fl \<Rightarrow> fl \<Rightarrow> fl" where
  "spec_x0 an' u4' yaw' beta' =
     np_cos yaw' * np_sqrt ((1 - an') * np_cos yaw' / (1 + u4'))
     / (2 / (1 + u4') * (beta' * (1 - u4') / 2))"

section \<open>Facts about the arithmetic\<close>

lemma numeral_fl: "(numeral n :: fl) = Fin (numeral n)"
proof (induction n)
  case One
  show ?case by (simp add: one_fl_def)
next
  case (Bit0 n)
  then show ?case by (simp only: numeral_Bit0 plus_fl.simps)
next
  case (Bit1 n)
  then show ?case by (simp only: numeral_Bit1 plus_fl.simps one_fl_def)
qed

lemma fl_power2: "(x::fl) ^ 2 = x * x"
  by (cases x) (simp_all add: power2_eq_square numeral_2_eq_2 one_fl_def inf_signed_def)

lemma fl_power3: "(x::fl) ^ 3 = x * (x * x)"
  by (cases x) (simp_all add: numeral_3_eq_3 one_fl_def inf_signed_def)

lemmas fl_numeral_simps = numeral_fl zero_fl_def one_fl_def minus_fl_def inf_signed_def

lemma np_max2_NaN: "np_max2 a b = NaN \<longleftrightarrow> a = NaN \<or> b = NaN"
  by (cases a; cases b) simp_all

lemma np_max2_gt: "a \<noteq> NaN \<Longrightarrow> b \<noteq> NaN \<Longrightarrow> np_max2 a b > t \<longleftrightarrow> a > t \<or> b > t"
  by (cases a; cases b; cases t) auto

text \<open>\<open>np.max\<close> of an array exceeds a threshold exactly when the array holds no
  not-a-number and one of its entries exceeds the threshold.\<close>

lemma foldl_np_max2_gt:
  "foldl np_max2 a cs > t \<longleftrightarrow> NaN \<notin> set (a # cs) \<and> (\<exists>x\<in>set (a # cs). x > t)"
proof (induction cs arbitrary: a)
  case Nil
  show ?case by (cases a; cases t) auto
next
  case (Cons c cs)
  show ?case
  proof (cases "a = NaN \<or> c = NaN")
    case True
    then have "np_max2 a c = NaN" by (simp add: np_max2_NaN)
    then show ?thesis using True Cons.IH [of "np_max2 a c"] by auto
  next
    case False
    then have n: "np_max2 a c \<noteq> NaN" by (simp add: np_max2_NaN)
    show ?thesis
      using False n Cons.IH [of "np_max2 a c"] np_max2_gt [of a c t] by auto
  qed
qed

lemma Heck_call_array_nonempty:
  "Cs \<noteq> [] \<Longrightarrow> \<exists>call. Heck_call_array Cs y xa e = Inr call"
  by (cases Cs) (simp_all add: Heck_call_array_def Let_def)

text \<open>A tolerance of zero is out of reach: no maximum of absolute values is below it.\<close>

lemma np_max2_lt: "a \<noteq> NaN \<Longrightarrow> b \<noteq> NaN \<Longrightarrow> np_max2 a b < t \<longleftrightarrow> a < t \<and> b < t"
  by (cases a; cases b; cases t) auto

lemma foldl_np_max2_lt:
  "foldl np_max2 a cs < t \<Longrightarrow> a < t"
proof (induction cs arbitrary: a)
  case Nil
  then show ?case by simp
next
  case (Cons c cs)
  then have m: "np_max2 a c < t" by simp
  then have "np_max2 a c \<noteq> NaN" by (cases "np_max2 a c") auto
  then have "a \<noteq> NaN" "c \<noteq> NaN" by (simp_all add: np_max2_NaN)
  then show ?case using m np_max2_lt by blast
qed

lemma abs_not_neg: "\<not> (\<bar>a :: fl\<bar> < 0)"
  by (cases a) (simp_all add: zero_fl_def)

lemma max_abs3_not_neg: "\<not> (max_abs vec3 r < 0)"
proof -
  obtain a b c where r: "r = (a, b, c)" by (cases r) auto
  show ?thesis
    by (cases a; cases b; cases c) (simp_all add: r vec3_def zero_fl_def)
qed

lemma max_abs3_array_not_neg: "\<not> (max_abs vec3_array r < 0)"
proof -
  obtain a b c where r: "r = (a, b, c)" by (cases r) auto
  show ?thesis
    using foldl_np_max2_lt [of "Fin 0" "map abs (a @ b @ c)" 0]
    by (auto simp add: r vec3_array_def zero_fl_def)
qed

lemma fpi_loop_unreachable:
  assumes "\<And>r. \<not> (max_abs ops r < eps')"
  shows "\<not> sol_converged (fpi_loop ops f' eps' relax n c x')"
  using assms by (induction n arbitrary: c x') (simp_all add: Let_def)

lemma fixedpointiteration_unreachable:
  assumes "\<And>r. \<not> (max_abs ops r < e)" and "fpi_eps call = Some e"
  shows "\<not> sol_converged (fixedpointiteration ops dflt call)"
  using assms fpi_loop_unreachable [of ops e]
  by (simp add: fixedpointiteration_def Let_def)

lemma Heck_eps_zero:
  "\<not> sol_converged (fixedpointiteration vec3 dflt (Heck_call C y x 0))"
  by (rule fixedpointiteration_unreachable [of vec3 0])
     (simp_all add: max_abs3_not_neg Heck_call_def Let_def)

lemma Heck_solve_converged:
  "converged (Heck_solve fpi C y x e) = sol_converged (fpi (Heck_call C y x e))"
  by (simp add: Heck_solve_def MomentumSolution_init_def Let_def split: prod.splits)

lemma nan_like3_NaN: "nan_like3 x = (NaN, NaN, NaN)"
  by (cases x) simp

lemma nan_like4_NaN: "nan_like4 x = (NaN, NaN, NaN, NaN)"
  by (cases x) simp

lemma Heck_array_eps_zero:
  "fpi_eps call = Some 0 \<Longrightarrow> \<not> sol_converged (fixedpointiteration vec3_array dflt call)"
  by (rule fixedpointiteration_unreachable [of vec3_array 0])
     (simp_all add: max_abs3_array_not_neg)

lemma Heck_call_array_fields:
  "Heck_call_array Cs y xa e = Inr call \<Longrightarrow>
     fpi_eps call = Some e
     \<and> fpi_x0 call = (case xa of None \<Rightarrow> Heck_initial_condition_array Cs y | Some g \<Rightarrow> g)"
  by (auto simp add: Heck_call_array_def Let_def split: sum.splits)


text \<open>An iteration whose residual has a not-a-number component never converges: the
  component stays not-a-number under every update.\<close>

lemma fpi_loop_stuck:
  assumes "\<And>x. P x \<Longrightarrow> \<not> (max_abs ops (f' x) < e) \<and> P (axpy ops x relax (f' x))"
    and "P x'"
  shows "\<not> sol_converged (fpi_loop ops f' e relax n c x')"
  using assms(2)
proof (induction n arbitrary: c x')
  case 0
  show ?case by simp
next
  case (Suc n)
  then show ?case using assms(1) [of x'] by (simp add: Let_def)
qed

lemma fixedpointiteration_stuck:
  assumes "\<And>e relax x. P x
      \<Longrightarrow> \<not> (max_abs ops (fpi_f call x) < e) \<and> P (axpy ops x relax (fpi_f call x))"
    and "P (fpi_x0 call)"
  shows "\<not> sol_converged (fixedpointiteration ops dflt call)"
  unfolding fixedpointiteration_def Let_def
  by (rule fpi_loop_stuck [where P = P]) (use assms in auto)

lemma NaN_not_less: "\<not> (NaN < (e::fl))"
  by simp

lemma plus_NaN: "(x::fl) + NaN = NaN" "NaN + x = NaN"
  by (cases x; simp)+

lemma times_NaN: "(x::fl) * NaN = NaN" "NaN * x = NaN"
  by (cases x; simp)+

lemma minus_NaN: "(x::fl) - NaN = NaN" "NaN - x = NaN"
  by (simp_all add: minus_fl_def plus_NaN)

lemma np_max2_NaN_left: "np_max2 NaN x = NaN" "np_max2 x NaN = NaN"
  by (cases x; simp)+

lemma np_sqrt_NaN: "np_sqrt NaN = NaN"
  by simp

lemmas NaN_simps = NaN_not_less plus_NaN times_NaN minus_NaN np_max2_NaN_left np_sqrt_NaN

lemma Heck_residual_NaN: "fst (Heck_residual (NaN, u, v) C y) = NaN"
  by (simp add: Let_def NaN_simps)

lemma Heck_zero_loading_residual: "fst (Heck_residual (0, 1, 0) 0 0) = NaN"
  by (simp add: Let_def fl_power2 fl_numeral_simps)

lemma Heck_zero_loading_x0: "Heck_initial_condition 0 0 = (0, 1, 0)"
  by (simp add: Heck_initial_condition_def LimitedHeck_solve_def MomentumSolution_init_def
      Let_def fl_power2 fl_numeral_simps)

lemma Heck_zero_loading_stuck:
  "\<not> sol_converged (fixedpointiteration vec3 dflt (Heck_call 0 0 None e))"
proof (rule fixedpointiteration_stuck
    [where P = "\<lambda>x. fst (Heck_residual x 0 0) = NaN"])
  fix e' relax x
  assume p: "fst (Heck_residual x 0 0) = NaN"
  obtain a u v where x: "x = (a, u, v)" by (cases x) auto
  obtain ea eu ev where r: "Heck_residual (a, u, v) 0 0 = (ea, eu, ev)"
    by (cases "Heck_residual (a, u, v) 0 0") auto
  have ea: "ea = NaN" using p x r by simp
  show "\<not> max_abs vec3 (fpi_f (Heck_call 0 0 None e) x) < e' \<and>
        fst (Heck_residual (axpy vec3 x relax (fpi_f (Heck_call 0 0 None e) x)) 0 0) = NaN"
    using ea
    by (simp add: Heck_call_def x r vec3_def NaN_simps Heck_residual_NaN
        del: Heck_residual.simps)
next
  show "fst (Heck_residual (fpi_x0 (Heck_call 0 0 None e)) 0 0) = NaN"
    using Heck_zero_loading_residual
    by (simp add: Heck_call_def Let_def Heck_zero_loading_x0 del: Heck_residual.simps)
qed

lemma Unified_residual_NaN: "fst (UnifiedMomentum_residual self (NaN, u, v, d) C y) = NaN"
  by (simp add: Let_def NaN_simps)

lemma Unified_zero_loading_residual:
  "fst (UnifiedMomentum_residual self (0, 1, 0, 0) 0 0) = NaN"
  by (simp add: Let_def fl_power2 fl_numeral_simps)

lemma Unified_zero_loading_x0: "UnifiedMomentum_initial_condition 0 0 = (0, 1, 0, 0)"
  by (simp add: UnifiedMomentum_initial_condition_def Let_def fl_power2 fl_numeral_simps
      zeros_like_def)

lemma Unified_zero_loading_stuck:
  "\<not> sol_converged
       (fixedpointiteration vec4 dflt (UnifiedMomentum_call self 0 0 g maxiter relax))"
proof (rule fixedpointiteration_stuck
    [where P = "\<lambda>x. fst (UnifiedMomentum_residual self x 0 0) = NaN"])
  fix e' rel x
  assume p: "fst (UnifiedMomentum_residual self x 0 0) = NaN"
  obtain a u v d where x: "x = (a, u, v, d)" by (cases x) auto
  obtain ea eu ev ed where r: "UnifiedMomentum_residual self (a, u, v, d) 0 0 = (ea, eu, ev, ed)"
    by (cases "UnifiedMomentum_residual self (a, u, v, d) 0 0") auto
  have ea: "ea = NaN" using p x r by simp
  show "\<not> max_abs vec4 (fpi_f (UnifiedMomentum_call self 0 0 g maxiter relax) x) < e' \<and>
        fst (UnifiedMomentum_residual self
               (axpy vec4 x rel (fpi_f (UnifiedMomentum_call self 0 0 g maxiter relax) x)) 0 0)
          = NaN"
    using ea
    by (simp add: UnifiedMomentum_call_def x r vec4_def NaN_simps Unified_residual_NaN
        del: UnifiedMomentum_residual.simps)
next
  show "fst (UnifiedMomentum_residual self
               (fpi_x0 (UnifiedMomentum_call self 0 0 g maxiter relax)) 0 0) = NaN"
    using Unified_zero_loading_residual
    by (simp add: UnifiedMomentum_call_def Unified_zero_loading_x0
        del: UnifiedMomentum_residual.simps)
qed

lemma ThrustBased_residual_NaN:
  "fst (ThrustBasedUnified_residual self (NaN, u, v, d, C) Ct' y) = NaN"
  using Unified_residual_NaN [of self u v d C y]
  by (auto simp add: Let_def split: prod.splits simp del: UnifiedMomentum_residual.simps)

lemma ThrustBased_zero_loading_residual:
  "fst (ThrustBasedUnified_residual self (0, 1, 0, 0, 0) 0 0) = NaN"
  using Unified_zero_loading_residual [of self]
  by (auto simp add: Let_def split: prod.splits simp del: UnifiedMomentum_residual.simps)

lemma ThrustBased_zero_loading_x0:
  "ThrustBasedUnified_initial_condition 0 0 = (0, 1, 0, 0, 0)"
  by (simp add: ThrustBasedUnified_initial_condition_def Let_def fl_numeral_simps
      zeros_like_def)

lemma ThrustBased_zero_loading_stuck:
  "\<not> sol_converged
       (fixedpointiteration vec5 dflt (ThrustBasedUnified_call self 0 0 g relax maxiter))"
proof (rule fixedpointiteration_stuck
    [where P = "\<lambda>x. fst (ThrustBasedUnified_residual self x 0 0) = NaN"])
  fix e' rel x
  assume p: "fst (ThrustBasedUnified_residual self x 0 0) = NaN"
  obtain a u v d C where x: "x = (a, u, v, d, C)" by (cases x) auto
  obtain ea eu ev ed eC
    where r: "ThrustBasedUnified_residual self (a, u, v, d, C) 0 0 = (ea, eu, ev, ed, eC)"
    by (cases "ThrustBasedUnified_residual self (a, u, v, d, C) 0 0") auto
  have ea: "ea = NaN" using p x r by simp
  show "\<not> max_abs vec5 (fpi_f (ThrustBasedUnified_call self 0 0 g relax maxiter) x) < e' \<and>
        fst (ThrustBasedUnified_residual self
               (axpy vec5 x rel (fpi_f (ThrustBasedUnified_call self 0 0 g relax maxiter) x))
               0 0)
          = NaN"
    using ea
    by (simp add: ThrustBasedUnified_call_def x r vec5_def NaN_simps ThrustBased_residual_NaN
        del: ThrustBasedUnified_residual.simps)
next
  show "fst (ThrustBasedUnified_residual self
               (fpi_x0 (ThrustBasedUnified_call self 0 0 g relax maxiter)) 0 0) = NaN"
    using ThrustBased_zero_loading_residual
    by (simp add: ThrustBasedUnified_call_def ThrustBased_zero_loading_x0
        del: ThrustBasedUnified_residual.simps)
qed

















section \<open>The solution record's derived coefficients\<close>

text \<open>
  Claim C8. The derived properties \<open>Ct\<close>, \<open>Cp\<close> and \<open>x0\<close> of a solution record are
  functions of its stored fields alone and agree with the formulas of the specification:
  \<open>Ct = Ctprime (1 - an)\<^sup>2 cos\<^sup>2 yaw\<close>, \<open>Cp = Ctprime ((1 - an) cos yaw)\<^sup>3\<close> and the
  near-wake length. A property is read by applying a function to the record, which
  leaves the record as it is.
\<close>

theorem derived_properties:
  "Ct s = spec_Ct (Ctprime s) (an s) (yaw s)
   \<and> Cp s = spec_Cp (Ctprime s) (an s) (yaw s)
   \<and> x0 s = spec_x0 (an s) (u4 s) (yaw s) (beta s)"
  by (simp add: Ct_def Cp_def x0_def spec_Ct_def spec_Cp_def spec_x0_def fl_power2 fl_power3)

section \<open>The closed-form model\<close>




section \<open>What the iterative model returns\<close>

text \<open>
  Claim C10. Whatever the engine answers, converged or not, \<open>Heck.solve\<close> returns a record
  whose \<open>dp\<close> is zero: the scalar zero for a scalar loading coefficient, and for an array
  of loading coefficients (with at least one entry) an array of zeros with the shape
  of \<open>an\<close>.
\<close>

theorem Heck_dp_zero:
  "dp (Heck_solve fpi Ctprime' yaw' x0' eps') = 0
   \<and> (Cs \<noteq> [] \<longrightarrow>
        (\<exists>s. Heck_solve_array fpa Cs yaw' xa eps' = Inr s \<and> dp s = map (\<lambda>_. 0) (an s)))"
proof
  show "dp (Heck_solve fpi Ctprime' yaw' x0' eps') = 0"
    by (simp add: Heck_solve_def MomentumSolution_init_def Let_def zeros_like_def zero_fl_def
        split: prod.splits)
  show "Cs \<noteq> [] \<longrightarrow>
        (\<exists>s. Heck_solve_array fpa Cs yaw' xa eps' = Inr s \<and> dp s = map (\<lambda>_. 0) (an s))"
  proof
    assume "Cs \<noteq> []"
    then obtain call where "Heck_call_array Cs yaw' xa eps' = Inr call"
      using Heck_call_array_nonempty by blast
    then show "\<exists>s. Heck_solve_array fpa Cs yaw' xa eps' = Inr s \<and> dp s = map (\<lambda>_. 0) (an s)"
      by (simp add: Heck_solve_array_def MomentumSolution_init_def Let_def zeros_like_def
          zero_fl_def split: prod.splits)
  qed
qed

theorem Heck_dp_zero_witness:
  "[1, 20] \<noteq> ([] :: fl list)
   \<and> (\<exists>s. Heck_solve_array (\<lambda>call. \<lparr>sol_converged = True, sol_niter = 1, sol_x = fpi_x0 call\<rparr>)
             [1, 20] 0 None Heck_default_eps = Inr s
          \<and> dp s = map (\<lambda>_. 0) (an s))"
  using Heck_dp_zero [where Cs = "[1, 20]" and yaw' = 0 and xa = None
      and eps' = Heck_default_eps
      and fpa = "\<lambda>call. \<lparr>sol_converged = True, sol_niter = 1, sol_x = fpi_x0 call\<rparr>"]
  by simp

text \<open>
  With the tolerance \<open>eps = 0\<close> the iteration cannot converge, and the record returned
  for the loading coefficient 2 at zero yaw has \<open>dp\<close> zero, not not-a-number: \<open>dp\<close> is
  made by \<open>np.zeros_like\<close> from \<open>a\<close> after the substitution.
\<close>

theorem Heck_nonconverged_dp_counterexample:
  "\<not> converged (Heck_solve (fixedpointiteration vec3 some_defaults) 2 0 None 0)
   \<and> dp (Heck_solve (fixedpointiteration vec3 some_defaults) 2 0 None 0) \<noteq> NaN"
  by (simp add: Heck_solve_converged Heck_eps_zero)
     (simp add: Heck_solve_def MomentumSolution_init_def Let_def zeros_like_def split: prod.splits)

text \<open>
  Claim C1, amended. When \<open>Heck.solve\<close> does not converge, the record it returns has
  \<open>converged = False\<close> and \<open>an\<close>, \<open>u4\<close>, \<open>v4\<close> not-a-number, while \<open>dp\<close> is zero;
  \<open>Ctprime\<close> and \<open>yaw\<close> are the arguments and \<open>niter\<close> is the engine's count. For an
  array of loading coefficients (at least one entry, default initial guess) the same
  holds entry by entry.
\<close>

theorem Heck_nonconverged:
  "(\<not> converged (Heck_solve fpi Ctprime' yaw' x0' eps') \<longrightarrow>
     (let s = Heck_solve fpi Ctprime' yaw' x0' eps';
          r = fpi (Heck_call Ctprime' yaw' x0' eps')
      in an s = NaN \<and> u4 s = NaN \<and> v4 s = NaN \<and> dp s = 0
         \<and> Ctprime s = Ctprime' \<and> yaw s = yaw' \<and> niter s = sol_niter r
         \<and> \<not> sol_converged r))
   \<and> (Cs \<noteq> [] \<longrightarrow>
        (\<exists>call s. Heck_call_array Cs yaw' None eps' = Inr call
           \<and> Heck_solve_array fpa Cs yaw' None eps' = Inr s
           \<and> converged s = sol_converged (fpa call)
           \<and> (\<not> converged s \<longrightarrow>
                an s = map (\<lambda>_. NaN) Cs \<and> u4 s = map (\<lambda>_. NaN) Cs
                \<and> v4 s = map (\<lambda>_. NaN) Cs \<and> dp s = map (\<lambda>_. 0) Cs
                \<and> Ctprime s = Cs \<and> yaw s = yaw' \<and> niter s = sol_niter (fpa call))))"
proof (intro conjI impI)
  assume "\<not> converged (Heck_solve fpi Ctprime' yaw' x0' eps')"
  then show "let s = Heck_solve fpi Ctprime' yaw' x0' eps';
          r = fpi (Heck_call Ctprime' yaw' x0' eps')
      in an s = NaN \<and> u4 s = NaN \<and> v4 s = NaN \<and> dp s = 0
         \<and> Ctprime s = Ctprime' \<and> yaw s = yaw' \<and> niter s = sol_niter r
         \<and> \<not> sol_converged r"
    by (simp add: Heck_solve_def MomentumSolution_init_def Let_def zeros_like_def zero_fl_def
        nan_like3_NaN split: prod.splits if_splits)
next
  assume "Cs \<noteq> []"
  then obtain call where call: "Heck_call_array Cs yaw' None eps' = Inr call"
    using Heck_call_array_nonempty by blast
  then have x: "fpi_x0 call = Heck_initial_condition_array Cs yaw'"
    using Heck_call_array_fields by fastforce
  show "\<exists>call s. Heck_call_array Cs yaw' None eps' = Inr call
           \<and> Heck_solve_array fpa Cs yaw' None eps' = Inr s
           \<and> converged s = sol_converged (fpa call)
           \<and> (\<not> converged s \<longrightarrow>
                an s = map (\<lambda>_. NaN) Cs \<and> u4 s = map (\<lambda>_. NaN) Cs
                \<and> v4 s = map (\<lambda>_. NaN) Cs \<and> dp s = map (\<lambda>_. 0) Cs
                \<and> Ctprime s = Cs \<and> yaw s = yaw' \<and> niter s = sol_niter (fpa call))"
    by (simp add: call x Heck_solve_array_def Heck_initial_condition_array_def
        LimitedHeck_solve_array_def MomentumSolution_init_def Let_def zeros_like_def
        zero_fl_def o_def split: prod.splits)
qed

theorem Heck_nonconverged_witness:
  "\<not> converged (Heck_solve (fixedpointiteration vec3 some_defaults) 2 0 None 0)
   \<and> (let s = Heck_solve (fixedpointiteration vec3 some_defaults) 2 0 None 0;
          r = fixedpointiteration vec3 some_defaults (Heck_call 2 0 None 0)
      in an s = NaN \<and> u4 s = NaN \<and> v4 s = NaN \<and> dp s = 0
         \<and> Ctprime s = 2 \<and> yaw s = 0 \<and> niter s = sol_niter r
         \<and> \<not> sol_converged r)
   \<and> [1, 20] \<noteq> ([] :: fl list)
   \<and> (\<exists>s. Heck_solve_array (fixedpointiteration vec3_array some_defaults) [1, 20] 0 None 0
             = Inr s
          \<and> \<not> converged s
          \<and> an s = [NaN, NaN] \<and> u4 s = [NaN, NaN] \<and> v4 s = [NaN, NaN] \<and> dp s = [0, 0]
          \<and> Ctprime s = [1, 20] \<and> yaw s = 0)"
proof -
  have h: "\<not> converged (Heck_solve (fixedpointiteration vec3 some_defaults) 2 0 None 0)"
    by (simp add: Heck_solve_converged Heck_eps_zero)
  have a: "[1, 20] \<noteq> ([] :: fl list)" by simp
  have "\<And>call. Heck_call_array [1, 20] 0 None 0 = Inr call \<Longrightarrow>
          \<not> sol_converged (fixedpointiteration vec3_array some_defaults call)"
    using Heck_call_array_fields Heck_array_eps_zero by blast
  then show ?thesis
    using h a
      Heck_nonconverged [where fpi = "fixedpointiteration vec3 some_defaults"
        and Ctprime' = 2 and yaw' = 0 and x0' = None and eps' = 0 and Cs = "[1, 20]"
        and fpa = "fixedpointiteration vec3_array some_defaults"]
    by (auto simp add: Let_def)
qed

text \<open>
  Claim C7. \<open>Heck.solve\<close> chooses the relaxation factor itself, exactly \<open>0.9\<close> when the
  largest loading coefficient exceeds 15 and exactly \<open>0.1\<close> otherwise, and calls the
  engine with it as the keyword argument \<open>relax\<close>, together with the residual function,
  the initial guess and \<open>eps\<close>, and without \<open>maxiter\<close>. What \<open>solve\<close> returns is made
  of the engine's answer to this call: \<open>converged\<close> and \<open>niter\<close> are the engine's, and
  \<open>an\<close>, \<open>u4\<close>, \<open>v4\<close> are the engine's state when it converged. The engine is
  consulted at this one call only, so the threshold and the two values are no part of
  it. For an array of loading coefficients \<open>np.max\<close> exceeds 15 when some entry does
  and none is not-a-number.
\<close>

theorem Heck_relax_choice:
  "(let call = Heck_call Ctprime' yaw' x0' eps';
        r = fpi call;
        s = Heck_solve fpi Ctprime' yaw' x0' eps'
    in fpi_relax call = Some (if Ctprime' > Fin 15 then Fin (9 / 10) else Fin (1 / 10))
       \<and> fpi_eps call = Some eps' \<and> fpi_maxiter call = None
       \<and> fpi_x0 call
           = (case x0' of None \<Rightarrow> Heck_initial_condition Ctprime' yaw' | Some g \<Rightarrow> g)
       \<and> fpi_f call = (\<lambda>x. Heck_residual x Ctprime' yaw')
       \<and> converged s = sol_converged r \<and> niter s = sol_niter r
       \<and> (an s, u4 s, v4 s) = (if sol_converged r then sol_x r else (NaN, NaN, NaN)))
   \<and> Heck_solve fpi Ctprime' yaw' x0' eps'
     = Heck_solve (\<lambda>_. fpi (Heck_call Ctprime' yaw' x0' eps')) Ctprime' yaw' x0' eps'
   \<and> (Cs \<noteq> [] \<longrightarrow>
        (\<exists>call s. Heck_call_array Cs yaw' xa eps' = Inr call
           \<and> fpi_relax call
               = Some (if NaN \<notin> set Cs \<and> (\<exists>c\<in>set Cs. c > Fin 15)
                       then Fin (9 / 10) else Fin (1 / 10))
           \<and> fpi_eps call = Some eps' \<and> fpi_maxiter call = None
           \<and> Heck_solve_array fpa Cs yaw' xa eps' = Inr s
           \<and> converged s = sol_converged (fpa call) \<and> niter s = sol_niter (fpa call)
           \<and> (an s, u4 s, v4 s)
               = (if sol_converged (fpa call) then sol_x (fpa call)
                  else nan_like3_array (fpi_x0 call))))"
proof (intro conjI impI)
  show "let call = Heck_call Ctprime' yaw' x0' eps';
        r = fpi call;
        s = Heck_solve fpi Ctprime' yaw' x0' eps'
    in fpi_relax call = Some (if Ctprime' > Fin 15 then Fin (9 / 10) else Fin (1 / 10))
       \<and> fpi_eps call = Some eps' \<and> fpi_maxiter call = None
       \<and> fpi_x0 call
           = (case x0' of None \<Rightarrow> Heck_initial_condition Ctprime' yaw' | Some g \<Rightarrow> g)
       \<and> fpi_f call = (\<lambda>x. Heck_residual x Ctprime' yaw')
       \<and> converged s = sol_converged r \<and> niter s = sol_niter r
       \<and> (an s, u4 s, v4 s) = (if sol_converged r then sol_x r else (NaN, NaN, NaN))"
    by (simp add: Heck_call_def Heck_relax_def Heck_solve_def MomentumSolution_init_def
        Let_def fl_numeral_simps nan_like3_NaN split: prod.splits)
  show "Heck_solve fpi Ctprime' yaw' x0' eps'
     = Heck_solve (\<lambda>_. fpi (Heck_call Ctprime' yaw' x0' eps')) Ctprime' yaw' x0' eps'"
    by (simp add: Heck_solve_def Let_def)
  assume "Cs \<noteq> []"
  then obtain c cs where Cs: "Cs = c # cs" by (cases Cs) auto
  define call where "call = \<lparr>fpi_f = (\<lambda>x. Heck_residual_array x Cs yaw'),
      fpi_x0 = (case xa of None \<Rightarrow> Heck_initial_condition_array Cs yaw' | Some g \<Rightarrow> g),
      fpi_eps = Some eps', fpi_maxiter = None,
      fpi_relax = Some (if foldl np_max2 c cs > 15 then 0.9 else (0.1 :: fl))\<rparr>"
  have callEq: "Heck_call_array Cs yaw' xa eps' = Inr call"
    unfolding call_def by (simp add: Cs Heck_call_array_def Let_def split: option.splits)
  have relax: "fpi_relax call
      = Some (if NaN \<notin> set Cs \<and> (\<exists>c\<in>set Cs. c > Fin 15)
              then Fin (9 / 10) else Fin (1 / 10))"
    unfolding call_def
    using foldl_np_max2_gt [of "Fin 15" c cs] by (simp add: Cs fl_numeral_simps)
  have other: "fpi_eps call = Some eps' \<and> fpi_maxiter call = None"
    unfolding call_def by simp
  define r where "r = fpa call"
  obtain a u v
    where x: "(if sol_converged r then sol_x r else nan_like3_array (fpi_x0 call)) = (a, u, v)"
    using prod_cases3 by blast
  define s where "s = (MomentumSolution_init Cs yaw' a u v (map zeros_like a))
                        \<lparr>niter := sol_niter r, converged := sol_converged r\<rparr>"
  have sEq: "Heck_solve_array fpa Cs yaw' xa eps' = Inr s"
    using x by (simp add: Heck_solve_array_def callEq Let_def r_def [symmetric] s_def)
  have sx: "converged s = sol_converged r \<and> niter s = sol_niter r
      \<and> (an s, u4 s, v4 s)
          = (if sol_converged r then sol_x r else nan_like3_array (fpi_x0 call))"
    unfolding s_def using x by (simp add: MomentumSolution_init_def)
  show "\<exists>call s. Heck_call_array Cs yaw' xa eps' = Inr call
           \<and> fpi_relax call
               = Some (if NaN \<notin> set Cs \<and> (\<exists>c\<in>set Cs. c > Fin 15)
                       then Fin (9 / 10) else Fin (1 / 10))
           \<and> fpi_eps call = Some eps' \<and> fpi_maxiter call = None
           \<and> Heck_solve_array fpa Cs yaw' xa eps' = Inr s
           \<and> converged s = sol_converged (fpa call) \<and> niter s = sol_niter (fpa call)
           \<and> (an s, u4 s, v4 s)
               = (if sol_converged (fpa call) then sol_x (fpa call)
                  else nan_like3_array (fpi_x0 call))"
    using callEq relax other sEq sx unfolding r_def
    by (intro exI [of _ call] exI [of _ s]) (simp only: simp_thms)
qed

theorem Heck_relax_choice_witness:
  "[1, 20] \<noteq> ([] :: fl list)
   \<and> (\<exists>call s. Heck_call_array [1, 20] 0 None Heck_default_eps = Inr call
          \<and> fpi_relax call = Some (Fin (9 / 10))
          \<and> fpi_eps call = Some Heck_default_eps \<and> fpi_maxiter call = None
          \<and> Heck_solve_array (fixedpointiteration vec3_array some_defaults) [1, 20] 0 None
               Heck_default_eps = Inr s
          \<and> converged s = sol_converged (fixedpointiteration vec3_array some_defaults call)
          \<and> niter s = sol_niter (fixedpointiteration vec3_array some_defaults call))"
proof -
  have a: "[1, 20] \<noteq> ([] :: fl list)" by simp
  have b: "(NaN \<notin> set [1, 20 :: fl] \<and> (\<exists>c\<in>set [1, 20 :: fl]. c > Fin 15)) = True"
    by (simp add: fl_numeral_simps)
  show ?thesis
    using a Heck_relax_choice [where Cs = "[1, 20]" and yaw' = 0 and xa = None
        and eps' = Heck_default_eps
        and fpa = "fixedpointiteration vec3_array some_defaults",
        THEN conjunct2, THEN conjunct2]
    unfolding b by (simp only: a simp_thms if_True) blast
qed

section \<open>What the thrust-based model returns\<close>

text \<open>
  Claim C5. \<open>ThrustBasedUnified.solve\<close> has no branch on the engine's \<open>converged\<close>
  attribute: the five components of the engine's final state are returned as \<open>an\<close>,
  \<open>u4\<close>, \<open>v4\<close>, \<open>dp\<close> and \<open>Ctprime\<close> whether the iteration converged or not, and
  \<open>converged\<close> and \<open>niter\<close> are the engine's.
\<close>

theorem ThrustBased_raw_iterate:
  "(let s = ThrustBasedUnified_solve fpi self Ct' yaw' x0' relax maxiter;
        r = fpi (ThrustBasedUnified_call self Ct' yaw' x0' relax maxiter)
    in (an s, u4 s, v4 s, dp s, Ctprime s) = sol_x r
       \<and> converged s = sol_converged r \<and> niter s = sol_niter r)"
  by (simp add: ThrustBasedUnified_solve_def MomentumSolution_init_def Let_def split: prod.splits)

section \<open>The initial guess of the caller\<close>

text \<open>
  Claim C3, where the code departs from it. \<open>UnifiedMomentum.solve\<close> and
  \<open>ThrustBasedUnified.solve\<close> take the keyword argument \<open>x0\<close> and overwrite it with the
  computed initial condition before anything reads it: whatever the caller supplies, the
  result is the one obtained without it.
\<close>

theorem Unified_x0_discarded:
  "UnifiedMomentum_solve fpi self Ctprime' yaw' x0' maxiter relax
     = UnifiedMomentum_solve fpi self Ctprime' yaw' None maxiter relax
   \<and> fpi_x0 (UnifiedMomentum_call self Ctprime' yaw' (Some g4) maxiter relax)
     = UnifiedMomentum_initial_condition Ctprime' yaw'
   \<and> ThrustBasedUnified_solve fpi5 self Ct' yaw' x0'' relax maxiter
     = ThrustBasedUnified_solve fpi5 self Ct' yaw' None relax maxiter
   \<and> fpi_x0 (ThrustBasedUnified_call self Ct' yaw' (Some g5) relax maxiter)
     = ThrustBasedUnified_initial_condition Ct' yaw'
   \<and> fpi_x0 (Heck_call Ctprime' yaw' (Some g3) eps') = g3"
  by (simp add: UnifiedMomentum_solve_def UnifiedMomentum_call_def
      ThrustBasedUnified_solve_def ThrustBasedUnified_call_def Heck_call_def)

section \<open>The diagnostic pressure term\<close>

text \<open>
  \<open>ThrustBasedUnified.solve\<close> builds its record without \<open>dp_NL\<close> (the keyword is
  commented out), so the field keeps its default \<open>0.0\<close>: for a pressure field that
  answers 1 everywhere and an engine run that converged, \<open>dp_NL\<close> is not the pressure
  at the converged state.
\<close>

theorem ThrustBased_dp_NL_counterexample:
  "converged
     (ThrustBasedUnified_solve
        (engine_returning
           \<lparr>sol_converged = True, sol_niter = 7, sol_x = (0.25, 0.5, 0, 0, 4 / 3)\<rparr>)
        \<lparr>self_beta = UnifiedMomentum_default_beta, get_pressure = constant_pressure 1\<rparr>
        0.75 0 None ThrustBasedUnified_default_relax ThrustBasedUnified_default_maxiter)
   \<and> dp_NL
       (ThrustBasedUnified_solve
          (engine_returning
             \<lparr>sol_converged = True, sol_niter = 7, sol_x = (0.25, 0.5, 0, 0, 4 / 3)\<rparr>)
          \<lparr>self_beta = UnifiedMomentum_default_beta, get_pressure = constant_pressure 1\<rparr>
          0.75 0 None ThrustBasedUnified_default_relax ThrustBasedUnified_default_maxiter)
     \<noteq> UnifiedMomentum_nonlinear_pressure
         \<lparr>self_beta = UnifiedMomentum_default_beta, get_pressure = constant_pressure 1\<rparr>
         (4 / 3) 0 0.25 0.5"
  by (simp add: ThrustBasedUnified_solve_def MomentumSolution_init_def Let_def
      engine_returning_def UnifiedMomentum_nonlinear_pressure_def constant_pressure_def
      fl_numeral_simps)

text \<open>
  Claim C4, amended. \<open>UnifiedMomentum.solve\<close> evaluates the pressure field once more
  after the iteration, at the state it returns, with the arguments \<open>Ct / 2\<close> and the
  near-wake length, and stores the value in \<open>dp_NL\<close>; it echoes \<open>beta\<close>. The value
  plays no part in what the engine is asked. \<open>ThrustBasedUnified.solve\<close> stores no such
  value: its \<open>dp_NL\<close> is the default \<open>0.0\<close>.
\<close>

theorem Unified_dp_NL:
  "(let s = UnifiedMomentum_solve fpi self Ctprime' yaw' x0' maxiter relax;
        r = fpi (UnifiedMomentum_call self Ctprime' yaw' x0' maxiter relax)
    in dp_NL s
         = get_pressure self (spec_Ct Ctprime' (an s) yaw' / 2)
             (spec_x0 (an s) (u4 s) yaw' (self_beta self))
       \<and> beta s = self_beta self
       \<and> converged s = sol_converged r
       \<and> (an s, u4 s, v4 s, dp s)
           = (if sol_converged r then sol_x r else (NaN, NaN, NaN, NaN)))
   \<and> dp_NL (ThrustBasedUnified_solve fpi5 self Ct' yaw' x0'' relax maxiter) = 0"
  by (simp add: UnifiedMomentum_solve_def Let_def UnifiedMomentum_nonlinear_pressure_def
      spec_Ct_def spec_x0_def fl_power2 nan_like4_NaN
      ThrustBasedUnified_solve_def MomentumSolution_init_def fl_numeral_simps
      split: prod.splits)

section \<open>Zero loading\<close>

text \<open>
  At \<open>Ctprime = 0\<close> and \<open>yaw = 0\<close> the initial guess of the iterative model is
  \<open>(0, 1, 0)\<close>, and the first residual \<open>e_a\<close> divides \<open>sqrt (1 - 1 - 0) = 0\<close> by
  \<open>sqrt 0 * cos 0 = 0\<close>: it is not-a-number, and stays so. With the engine of the
  specification \<open>Heck.solve\<close> does not converge there.
\<close>

theorem zero_loading_counterexample:
  "\<not> converged (Heck_solve (fixedpointiteration vec3 some_defaults) 0 0 None Heck_default_eps)"
  by (simp add: Heck_solve_converged Heck_zero_loading_stuck)

text \<open>
  Claim C2, amended. At loading coefficient 0 and yaw 0 the closed-form model returns
  \<open>an = 0\<close>, \<open>u4 = 1\<close>, \<open>v4 = 0\<close>, \<open>dp = 0\<close> and \<open>converged = True\<close>. The three
  iterative models divide zero by zero in their first residual there and do not
  converge, whatever the tolerance, the iteration cap and the relaxation: \<open>Heck.solve\<close>
  returns not-a-number for \<open>an\<close>, \<open>u4\<close>, \<open>v4\<close> (and \<open>dp = 0\<close>),
  \<open>UnifiedMomentum.solve\<close> returns not-a-number for all four, and
  \<open>ThrustBasedUnified.solve\<close> reports \<open>converged = False\<close>.
\<close>

theorem zero_loading:
  "(let s = LimitedHeck_solve 0 0
    in an s = 0 \<and> u4 s = 1 \<and> v4 s = 0 \<and> dp s = 0 \<and> converged s)
   \<and> (let s = Heck_solve (fixedpointiteration vec3 dflt) 0 0 None eps'
      in \<not> converged s \<and> an s = NaN \<and> u4 s = NaN \<and> v4 s = NaN \<and> dp s = 0)
   \<and> (let s = UnifiedMomentum_solve (fixedpointiteration vec4 dflt) self 0 0 x0' maxiter relax
      in \<not> converged s \<and> an s = NaN \<and> u4 s = NaN \<and> v4 s = NaN \<and> dp s = NaN)
   \<and> (let s = ThrustBasedUnified_solve (fixedpointiteration vec5 dflt) self 0 0 x0'' relax
                maxiter
      in \<not> converged s)"
proof (intro conjI)
  show "let s = LimitedHeck_solve 0 0
    in an s = 0 \<and> u4 s = 1 \<and> v4 s = 0 \<and> dp s = 0 \<and> converged s"
    by (simp add: LimitedHeck_solve_def MomentumSolution_init_def Let_def fl_power2
        fl_numeral_simps)
  show "let s = Heck_solve (fixedpointiteration vec3 dflt) 0 0 None eps'
      in \<not> converged s \<and> an s = NaN \<and> u4 s = NaN \<and> v4 s = NaN \<and> dp s = 0"
    using Heck_zero_loading_stuck [of dflt eps']
    by (simp add: Heck_solve_def MomentumSolution_init_def Let_def nan_like3_NaN
        zeros_like_def zero_fl_def)
  show "let s = UnifiedMomentum_solve (fixedpointiteration vec4 dflt) self 0 0 x0' maxiter relax
      in \<not> converged s \<and> an s = NaN \<and> u4 s = NaN \<and> v4 s = NaN \<and> dp s = NaN"
    using Unified_zero_loading_stuck [of dflt self x0' maxiter relax]
    by (simp add: UnifiedMomentum_solve_def Let_def nan_like4_NaN)
  show "let s = ThrustBasedUnified_solve (fixedpointiteration vec5 dflt) self 0 0 x0'' relax
                maxiter
      in \<not> converged s"
    using ThrustBased_zero_loading_stuck [of dflt self x0'' relax maxiter]
    by (simp add: ThrustBasedUnified_solve_def MomentumSolution_init_def Let_def
        split: prod.splits)
qed

section \<open>Zero yaw\<close>




end
